theory Spec2Isabelle
  imports Complex_Main "HOL-Library.Word"
begin

section \<open>The panorama converter \<open>main_pano_converter.cpp\<close>\<close>

text \<open>
  The program is a single \<open>main\<close>. It is embedded as a function from the command line
  and the collaborators it calls (command-line parser, file system, image codec,
  camera library) to the list of observable effects and the exit code.

  Conventions of the embedding:
  \<^item> \<open>int\<close> variables of the source are HOL integers; the only arithmetic on them is a
    loop counter that stays below \<open>nb_split\<close>, so no wrap-around can occur;
  \<^item> \<open>float\<close> and \<open>double\<close> values are idealised as exact reals; rounding is not
    modelled;
  \<^item> each collaborator is a field of the record \<open>env\<close>; a field gives the outcome of
    the call the run makes with these arguments;
  \<^item> every effect (a line on an output stream, a call that touches the disk, the
    resampling call) is an entry of the trace, in program order;
  \<^item> a run that never returns has the value \<open>None\<close>.
\<close>

subsection \<open>Geometry\<close>

type_synonym vec2 = "real \<times> real"
type_synonym vec3 = "real \<times> real \<times> real"

text \<open>A 3x3 matrix, as its three rows.\<close>
type_synonym mat3 = "vec3 \<times> vec3 \<times> vec3"

definition mat_vec :: "mat3 \<Rightarrow> vec3 \<Rightarrow> vec3" where
  "mat_vec M v =
     (case M of ((a, b, c), (d, e, f), (g, h, i)) \<Rightarrow>
      case v of (x, y, z) \<Rightarrow>
        (a * x + b * y + c * z, d * x + e * y + f * z, g * x + h * y + i * z))"

definition Identity3 :: mat3 where
  "Identity3 = ((1, 0, 0), (0, 1, 0), (0, 0, 1))"

text \<open>
  Modelled from the spec: \<open>RotationAroundY\<close> belongs to the numeric module of the
  library, which is not among the sources at hand. The spec (4.1) asks for the rotation
  of the given angle about the vertical axis.
\<close>
definition RotationAroundY :: "real \<Rightarrow> mat3" where
  "RotationAroundY angle =
     ((cos angle, 0, sin angle), (0, 1, 0), (- sin angle, 0, cos angle))"

text \<open>
  Modelled from the spec: \<open>D2R\<close> (degrees to radians) belongs to the numeric module,
  which is not among the sources at hand.
\<close>
definition D2R :: "real \<Rightarrow> real" where
  "D2R degree = degree * pi / 180"

text \<open>
  Modelled from the spec: \<open>FocalFromPinholeHeight\<close> is declared in
  \<open>cubic_image_sampler.hpp\<close>, which is not among the sources at hand. The spec (4.2)
  gives \<open>focal = (h / 2) / tan (fov_radians / 2)\<close>.
\<close>
definition FocalFromPinholeHeight :: "int \<Rightarrow> real \<Rightarrow> real" where
  "FocalFromPinholeHeight h fov_radian = (real_of_int h / 2) / tan (fov_radian / 2)"

text \<open>The pinhole camera model of the spec (3): width, height, focal length, principal point.\<close>
record pinhole =
  pin_w :: int
  pin_h :: int
  pin_focal :: real
  pin_ppx :: real
  pin_ppy :: real

subsection \<open>Images\<close>

datatype rgb = RGBColor "8 word" "8 word" "8 word"

definition BLACK :: rgb where
  "BLACK = RGBColor 0 0 0"

record image =
  img_width :: int
  img_height :: int
  img_pixels :: "rgb list"

text \<open>
  Modelled from the spec: the image class is not among the sources at hand. The spec (3)
  describes an image as a grid of RGB samples, and an output image as allocated and
  initialised to a background colour. The grid is kept row by row.
\<close>
definition Image :: "int \<Rightarrow> int \<Rightarrow> rgb \<Rightarrow> image" where
  "Image width height val =
     \<lparr>img_width = width, img_height = height,
      img_pixels = replicate (nat (width * height)) val\<rparr>"

subsection \<open>Command line\<close>

text \<open>The variables that the options of the command line are bound to, and the demo switch.\<close>
record options =
  s_directory_in :: string
  s_directory_out :: string
  image_resolution :: int
  nb_split :: int
  fov :: real
  used_D :: bool

definition default_options :: options where
  "default_options =
     \<lparr>s_directory_in = [], s_directory_out = [], image_resolution = 1024,
      nb_split = 5, fov = 60, used_D = False\<rparr>"

definition EXIT_SUCCESS :: int where
  "EXIT_SUCCESS = 0"

definition EXIT_FAILURE :: int where
  "EXIT_FAILURE = 1"

subsection \<open>Effects\<close>

datatype svg_prim =
    Line real real real real
  | Circle real real real string

datatype content =
    SvgDoc int int "svg_prim list"
  | FocalText real

text \<open>
  \<open>Usage\<close> is the usage text on the error stream; it prints \<open>argv[0]\<close> and the current
  values of the three numeric options. \<open>Resample\<close> is the call of
  \<open>SphericalToPinholes\<close> with the arguments it receives.
\<close>
datatype event =
    Usage string int int real
  | Cerr string
  | Cout string
  | FolderCreate string
  | Resample image pinhole "image list" "mat3 list"
  | WriteImage string image
  | WriteFile string content

subsection \<open>Collaborators\<close>

text \<open>
  \<open>cmd_process\<close> is \<open>CmdLine::process\<close>: it returns whether it threw, and the option
  variables as it left them. \<open>bearing\<close> is the call operator of the pinhole camera,
  \<open>spherical_project\<close> the projection of the spherical camera of the given size.
  \<open>resample\<close> is what \<open>SphericalToPinholes\<close> does for one rotation.
\<close>
record env =
  cmd_process :: "string list \<Rightarrow> options \<Rightarrow> bool \<times> options"
  is_folder :: "string \<Rightarrow> bool"
  folder_create :: "string \<Rightarrow> bool"
  folder_wildcard :: "string \<Rightarrow> string list"
  create_filespec :: "string \<Rightarrow> string \<Rightarrow> string"
  basename_part :: "string \<Rightarrow> string"
  ReadImage :: "string \<Rightarrow> image option"
  ComputeCubicCameraIntrinsics :: "int \<Rightarrow> pinhole"
  bearing :: "pinhole \<Rightarrow> vec2 \<Rightarrow> vec3"
  spherical_project :: "int \<Rightarrow> int \<Rightarrow> vec3 \<Rightarrow> vec2"
  resample :: "image \<Rightarrow> pinhole \<Rightarrow> mat3 \<Rightarrow> image \<Rightarrow> image"

text \<open>
  Modelled from the spec: \<open>SphericalToPinholes\<close> is declared in
  \<open>cubic_image_sampler.hpp\<close>, which is not among the sources at hand. The spec (4.4)
  has it produce one output image per rotation, each independent of the others.
\<close>
definition SphericalToPinholes ::
  "env \<Rightarrow> image \<Rightarrow> pinhole \<Rightarrow> image list \<Rightarrow> mat3 list \<Rightarrow> image list" where
  "SphericalToPinholes E spherical_image cam sampled_images rotations =
     map (\<lambda>(R, out). resample E spherical_image cam R out) (zip rotations sampled_images)"

subsection \<open>Decimal output of an integer\<close>

fun digits :: "nat \<Rightarrow> string" where
  "digits n =
     (if n < 10 then [''0123456789'' ! n]
      else digits (n div 10) @ [''0123456789'' ! (n mod 10)])"

declare digits.simps [simp del]

definition show_int :: "int \<Rightarrow> string" where
  "show_int i = (if i < 0 then CHR ''-'' # digits (nat (- i)) else digits (nat i))"

subsection \<open>Camera set-up (lines 112 to 121)\<close>

definition focal :: "options \<Rightarrow> real" where
  "focal opts = FocalFromPinholeHeight (image_resolution opts) (D2R (fov opts))"

definition pinhole_camera :: "env \<Rightarrow> options \<Rightarrow> pinhole" where
  "pinhole_camera E opts = ComputeCubicCameraIntrinsics E (image_resolution opts)"

text \<open>
  At \<open>nb_split = 0\<close> the source divides by zero and gets an infinite \<open>alpha\<close>; HOL gives
  \<open>0\<close>. The value is only read inside the loop, which then has no iteration.
\<close>
definition alpha :: "options \<Rightarrow> real" where
  "alpha opts = (pi * 2) / real_of_int (nb_split opts)"

function rotations_loop :: "real \<Rightarrow> int \<Rightarrow> int \<Rightarrow> mat3 list \<Rightarrow> mat3 list" where
  "rotations_loop a n i acc =
     (if i < n then rotations_loop a n (i + 1) (acc @ [RotationAroundY (a * real_of_int i)])
      else acc)"
  by pat_completeness auto
termination
  by (relation "measure (\<lambda>(a, n, i, acc). nat (n - i))") auto

declare rotations_loop.simps [simp del]

definition camera_rotations :: "options \<Rightarrow> mat3 list" where
  "camera_rotations opts = rotations_loop (alpha opts) (nb_split opts) 0 []"

subsection \<open>Demo mode (lines 123 to 167)\<close>

definition pano_width :: int where
  "pano_width = 4096"

definition pano_height :: int where
  "pano_height = pano_width div 2"

text \<open>Where a pixel of the pinhole image falls on the panorama, for one camera rotation.\<close>
definition sphere_proj :: "env \<Rightarrow> pinhole \<Rightarrow> mat3 \<Rightarrow> vec2 \<Rightarrow> vec2" where
  "sphere_proj E cam cam_rotation p =
     spherical_project E pano_width pano_height (mat_vec cam_rotation (bearing E cam p))"

definition drawCircle :: "vec2 \<Rightarrow> string \<Rightarrow> svg_prim" where
  "drawCircle c colour = Circle (fst c) (snd c) 4 colour"

definition step :: int where
  "step = 10"

text \<open>The two circles of one iteration of the first loop: left and right border.\<close>
definition vertical_pair :: "(vec2 \<Rightarrow> vec2) \<Rightarrow> real \<Rightarrow> real \<Rightarrow> svg_prim list" where
  "vertical_pair proj res j =
     [drawCircle (proj (0, j)) ''green'', drawCircle (proj (res, j)) ''green'']"

text \<open>The two circles of one iteration of the second loop: top and bottom border.\<close>
definition horizontal_pair :: "(vec2 \<Rightarrow> vec2) \<Rightarrow> real \<Rightarrow> real \<Rightarrow> svg_prim list" where
  "horizontal_pair proj res j =
     [drawCircle (proj (j, 0)) ''yellow'', drawCircle (proj (j, res)) ''yellow'']"

text \<open>
  \<open>for (double j = 0; j <= image_resolution; j += image_resolution/(double)step)\<close>: the
  increment is zero when the resolution is, so the loop need not end.
\<close>
partial_function (option) vertical_border ::
  "(vec2 \<Rightarrow> vec2) \<Rightarrow> real \<Rightarrow> real \<Rightarrow> svg_prim list \<Rightarrow> svg_prim list option" where
  "vertical_border proj res j svg =
     (if j \<le> res then
        vertical_border proj res (j + res / real_of_int step) (svg @ vertical_pair proj res j)
      else Some svg)"

partial_function (option) horizontal_border ::
  "(vec2 \<Rightarrow> vec2) \<Rightarrow> real \<Rightarrow> real \<Rightarrow> svg_prim list \<Rightarrow> svg_prim list option" where
  "horizontal_border proj res j svg =
     (if j \<le> res then
        horizontal_border proj res (j + res / real_of_int step) (svg @ horizontal_pair proj res j)
      else Some svg)"

text \<open>The body of the loop over the cameras, and the loop.\<close>
definition draw_camera ::
  "env \<Rightarrow> pinhole \<Rightarrow> real \<Rightarrow> mat3 \<Rightarrow> svg_prim list \<Rightarrow> svg_prim list option" where
  "draw_camera E cam res cam_rotation svg =
     (case vertical_border (sphere_proj E cam cam_rotation) res 0 svg of
        None \<Rightarrow> None
      | Some svg1 \<Rightarrow> horizontal_border (sphere_proj E cam cam_rotation) res 0 svg1)"

fun draw_cameras ::
  "env \<Rightarrow> pinhole \<Rightarrow> real \<Rightarrow> mat3 list \<Rightarrow> svg_prim list \<Rightarrow> svg_prim list option" where
  "draw_cameras E cam res [] svg = Some svg"
| "draw_cameras E cam res (cam_rotation # rest) svg =
     (case draw_camera E cam res cam_rotation svg of
        None \<Rightarrow> None
      | Some svg1 \<Rightarrow> draw_cameras E cam res rest svg1)"

definition reference_lines :: "svg_prim list" where
  "reference_lines =
     [Line 0 0 (real_of_int pano_width) (real_of_int pano_height),
      Line (real_of_int pano_width) 0 0 (real_of_int pano_height)]"

definition demo_mode :: "env \<Rightarrow> options \<Rightarrow> (event list \<times> int) option" where
  "demo_mode E opts =
     (case draw_cameras E (pinhole_camera E opts) (real_of_int (image_resolution opts))
             (camera_rotations opts) reference_lines of
        None \<Rightarrow> None
      | Some svg \<Rightarrow>
          Some ([WriteFile (create_filespec E (s_directory_out opts) ''test.svg'')
                   (SvgDoc pano_width pano_height svg)],
                EXIT_SUCCESS))"

subsection \<open>Conversion mode (lines 169 to 209)\<close>

definition sampled_images :: "options \<Rightarrow> image list" where
  "sampled_images opts =
     replicate (length (camera_rotations opts))
       (Image (image_resolution opts) (image_resolution opts) BLACK)"

definition output_name :: "env \<Rightarrow> options \<Rightarrow> string \<Rightarrow> int \<Rightarrow> string" where
  "output_name E opts filename_it i_rot =
     s_directory_out opts @ ''/'' @ basename_part E filename_it @ ''_'' @ show_int i_rot @ ''.jpg''"

text \<open>
  The loop that saves the images. It reads \<open>sampled[i_rot]\<close> for every index below the
  number of rotations; \<open>SphericalToPinholes\<close> above returns as many images as it is given
  rotations and images, so the index is in range.
\<close>
function save_images ::
  "env \<Rightarrow> options \<Rightarrow> string \<Rightarrow> image list \<Rightarrow> int \<Rightarrow> event list" where
  "save_images E opts filename_it sampled i_rot =
     (if i_rot < int (length (camera_rotations opts)) then
        [Cout (basename_part E filename_it @ '' cam index: '' @ show_int i_rot),
         WriteImage (output_name E opts filename_it i_rot) (sampled ! nat i_rot)]
        @ save_images E opts filename_it sampled (i_rot + 1)
      else [])"
  by pat_completeness auto
termination
  by (relation "measure (\<lambda>(E, opts, f, sampled, i). nat (int (length (camera_rotations opts)) - i))")
    auto

declare save_images.simps [simp del]

text \<open>The body of the loop over the source images.\<close>
definition convert_image :: "env \<Rightarrow> options \<Rightarrow> string \<Rightarrow> event list" where
  "convert_image E opts filename_it =
     (case ReadImage E (create_filespec E (s_directory_in opts) filename_it) of
        None \<Rightarrow>
          [Cerr (''Cannot read the image: '' @ create_filespec E (s_directory_in opts) filename_it)]
      | Some spherical_image \<Rightarrow>
          Resample spherical_image (pinhole_camera E opts) (sampled_images opts)
            (camera_rotations opts)
          # save_images E opts filename_it
              (SphericalToPinholes E spherical_image (pinhole_camera E opts)
                 (sampled_images opts) (camera_rotations opts)) 0)"

fun convert_images :: "env \<Rightarrow> options \<Rightarrow> string list \<Rightarrow> event list" where
  "convert_images E opts [] = []"
| "convert_images E opts (filename_it # rest) =
     convert_image E opts filename_it @ convert_images E opts rest"

definition focal_file :: "env \<Rightarrow> options \<Rightarrow> event" where
  "focal_file E opts =
     WriteFile (create_filespec E (s_directory_out opts) ''focal.txt'') (FocalText (focal opts))"

definition conversion_mode :: "env \<Rightarrow> options \<Rightarrow> string list \<Rightarrow> (event list \<times> int) option" where
  "conversion_mode E opts vec_filenames =
     Some (convert_images E opts vec_filenames @ [focal_file E opts], EXIT_SUCCESS)"

subsection \<open>The program\<close>

text \<open>Adds the effects that came before to the outcome of the rest of the run.\<close>
definition after :: "event list \<Rightarrow> (event list \<times> int) option \<Rightarrow> (event list \<times> int) option" where
  "after evs r = (case r of None \<Rightarrow> None | Some (tr, code) \<Rightarrow> Some (evs @ tr, code))"

text \<open>Lines 81 to 88: the output directory is created when it does not exist.\<close>
definition output_dir_events :: "env \<Rightarrow> options \<Rightarrow> event list" where
  "output_dir_events E opts =
     (if is_folder E (s_directory_out opts) then [] else [FolderCreate (s_directory_out opts)])"

text \<open>Lines 63 to 209: everything after the command line has been read.\<close>
definition body :: "env \<Rightarrow> options \<Rightarrow> (event list \<times> int) option" where
  "body E opts =
     (if image_resolution opts < 0 then
        Some ([Cerr ''image_resolution must be larger than 0''], EXIT_FAILURE)
      else if nb_split opts < 0 then
        Some ([Cerr ''nb_split must be larger than 0''], EXIT_FAILURE)
      else if s_directory_in opts = [] \<or> s_directory_out opts = [] then
        Some ([Cerr ''input_dir and output_dir option must not be empty''], EXIT_FAILURE)
      else if \<not> is_folder E (s_directory_out opts) \<and> \<not> folder_create E (s_directory_out opts) then
        Some ([FolderCreate (s_directory_out opts),
               Cerr ''Cannot create the output_dir directory''], EXIT_FAILURE)
      else if folder_wildcard E (s_directory_in opts) = [] then
        Some (output_dir_events E opts
              @ [Cerr ''Did not find any jpg image in the provided input_dir''], EXIT_FAILURE)
      else if used_D opts then
        after (output_dir_events E opts) (demo_mode E opts)
      else
        after (output_dir_events E opts)
          (conversion_mode E opts (folder_wildcard E (s_directory_in opts))))"

text \<open>
  Lines 47 to 61: with no argument the parser is not called and the usage text is
  printed; it is also printed when the parser throws. Neither ends the run.
\<close>
definition read_command_line :: "env \<Rightarrow> string \<Rightarrow> string list \<Rightarrow> event list \<times> options" where
  "read_command_line E argv0 args =
     (let (threw, opts) =
            (if args = [] then (True, default_options)
             else cmd_process E (argv0 # args) default_options)
      in (if threw then
            [Usage argv0 (image_resolution opts) (nb_split opts) (fov opts)]
          else [],
          opts))"

definition main :: "env \<Rightarrow> string \<Rightarrow> string list \<Rightarrow> (event list \<times> int) option" where
  "main E argv0 args =
     (case read_command_line E argv0 args of
        (evs, opts) \<Rightarrow> after evs (body E opts))"

subsection \<open>Observations on a run\<close>

text \<open>The effects and the exit code of a run; a run that never returns has no effect here.\<close>
definition trace_of :: "(event list \<times> int) option \<Rightarrow> event list" where
  "trace_of r = (case r of None \<Rightarrow> [] | Some (tr, code) \<Rightarrow> tr)"

definition exit_code :: "(event list \<times> int) option \<Rightarrow> int option" where
  "exit_code r = map_option snd r"

text \<open>
  The startup checks of lines 65 to 98 all pass: no option is negative, both directories
  are named, the output directory exists or can be created, and the input directory
  lists at least one image.
\<close>
definition startup_checks_pass :: "env \<Rightarrow> options \<Rightarrow> bool" where
  "startup_checks_pass E opts \<longleftrightarrow>
     0 \<le> image_resolution opts \<and> 0 \<le> nb_split opts
     \<and> s_directory_in opts \<noteq> [] \<and> s_directory_out opts \<noteq> []
     \<and> (is_folder E (s_directory_out opts) \<or> folder_create E (s_directory_out opts))
     \<and> folder_wildcard E (s_directory_in opts) \<noteq> []"

text \<open>The images handed to \<open>WriteImage\<close>, with their paths, in program order.\<close>
fun image_written :: "event \<Rightarrow> (string \<times> image) list" where
  "image_written (WriteImage path img) = [(path, img)]"
| "image_written _ = []"

definition written_images :: "event list \<Rightarrow> (string \<times> image) list" where
  "written_images tr = concat (map image_written tr)"

text \<open>The files written through an output stream, with their paths, in program order.\<close>
fun file_written :: "event \<Rightarrow> (string \<times> content) list" where
  "file_written (WriteFile path c) = [(path, c)]"
| "file_written _ = []"

definition written_files :: "event list \<Rightarrow> (string \<times> content) list" where
  "written_files tr = concat (map file_written tr)"

text \<open>The vector-graphics documents that a run writes.\<close>
fun document_written :: "event \<Rightarrow> svg_prim list list" where
  "document_written (WriteFile _ (SvgDoc _ _ svg)) = [svg]"
| "document_written _ = []"

definition documents :: "(event list \<times> int) option \<Rightarrow> svg_prim list list" where
  "documents r = concat (map document_written (trace_of r))"

text \<open>
  The effects that belong to conversion mode (the resampling call, an image written, the
  focal length written) and the one that belongs to demo mode (the document written).
\<close>
fun conversion_event :: "event \<Rightarrow> bool" where
  "conversion_event (Resample _ _ _ _) = True"
| "conversion_event (WriteImage _ _) = True"
| "conversion_event (WriteFile _ (FocalText _)) = True"
| "conversion_event _ = False"

fun diagnostic_event :: "event \<Rightarrow> bool" where
  "diagnostic_event (WriteFile _ (SvgDoc _ _ _)) = True"
| "diagnostic_event _ = False"

fun focal_text_event :: "event \<Rightarrow> bool" where
  "focal_text_event (WriteFile _ (FocalText _)) = True"
| "focal_text_event _ = False"

text \<open>A run with the value streamed to \<open>focal.txt\<close> left out.\<close>
definition without_focal_text :: "(event list \<times> int) option \<Rightarrow> (event list \<times> int) option" where
  "without_focal_text r =
     map_option (\<lambda>(tr, code). (filter (\<lambda>e. \<not> focal_text_event e) tr, code)) r"

text \<open>Counting the primitives of a document.\<close>
fun is_circle :: "svg_prim \<Rightarrow> bool" where
  "is_circle (Circle _ _ _ _) = True"
| "is_circle (Line _ _ _ _) = False"

fun has_colour :: "string \<Rightarrow> svg_prim \<Rightarrow> bool" where
  "has_colour colour (Circle _ _ _ c) = (c = colour)"
| "has_colour colour (Line _ _ _ _) = False"

definition circle_count :: "svg_prim list \<Rightarrow> nat" where
  "circle_count svg = length (filter is_circle svg)"

definition colour_count :: "string \<Rightarrow> svg_prim list \<Rightarrow> nat" where
  "colour_count colour svg = length (filter (has_colour colour) svg)"

definition other_prims :: "svg_prim list \<Rightarrow> svg_prim list" where
  "other_prims svg = filter (\<lambda>p. \<not> is_circle p) svg"

text \<open>
  The markers of one camera when both border loops take their eleven samples
  \<open>j = i * res / 10\<close>: the first loop's pairs, then the second loop's.
\<close>
definition camera_markers :: "(vec2 \<Rightarrow> vec2) \<Rightarrow> real \<Rightarrow> svg_prim list" where
  "camera_markers proj res =
     concat (map (\<lambda>i. vertical_pair proj res (real i * res / 10)) [0..<11])
     @ concat (map (\<lambda>i. horizontal_pair proj res (real i * res / 10)) [0..<11])"

text \<open>
  The image files of one source image that decodes, as the spec (6) names them: one per
  camera index, \<open>{output_dir}/{basename}_{index}.jpg\<close>, resampled into a black image of
  the output resolution.
\<close>
definition pinhole_files :: "env \<Rightarrow> options \<Rightarrow> string \<Rightarrow> image \<Rightarrow> (string \<times> image) list" where
  "pinhole_files E opts f img =
     map (\<lambda>k. (s_directory_out opts @ ''/'' @ basename_part E f @ ''_'' @ show_int k @ ''.jpg'',
                resample E img (pinhole_camera E opts) (camera_rotations opts ! nat k)
                  (Image (image_resolution opts) (image_resolution opts) BLACK)))
         [0..nb_split opts - 1]"

subsection \<open>A small world to run the program in\<close>

text \<open>
  An input directory \<open>in\<close> with one panorama that decodes and one file that does not,
  and an existing output directory \<open>out\<close>. The parser leaves the options as they are,
  the camera has a right-angle field of view, and resampling leaves the allocated image
  as it is.
\<close>
definition pano :: image where
  "pano = Image 4 2 (RGBColor 200 120 40)"

definition sample_env :: env where
  "sample_env =
     \<lparr>cmd_process = (\<lambda>argv opts. (False, opts)),
      is_folder = (\<lambda>p. p = ''out''),
      folder_create = (\<lambda>p. True),
      folder_wildcard = (\<lambda>d. if d = ''in'' then [''pano.jpg'', ''broken.jpg''] else []),
      create_filespec = (\<lambda>d f. d @ ''/'' @ f),
      basename_part = takeWhile (\<lambda>c. c \<noteq> CHR ''.''),
      ReadImage = (\<lambda>p. if p = ''in/pano.jpg'' then Some pano else None),
      ComputeCubicCameraIntrinsics =
        (\<lambda>h. \<lparr>pin_w = h, pin_h = h, pin_focal = real_of_int h / 2,
              pin_ppx = real_of_int h / 2, pin_ppy = real_of_int h / 2\<rparr>),
      bearing =
        (\<lambda>cam (x, y). ((x - pin_ppx cam) / pin_focal cam, (y - pin_ppy cam) / pin_focal cam, 1)),
      spherical_project = (\<lambda>w h (x, y, z). (x, y)),
      resample = (\<lambda>src cam R out. out)\<rparr>"

text \<open>The default options with the two directories named; the same with the demo switch.\<close>
definition sample_options :: options where
  "sample_options = default_options\<lparr>s_directory_in := ''in'', s_directory_out := ''out''\<rparr>"

definition demo_options :: options where
  "demo_options = sample_options\<lparr>used_D := True\<rparr>"

text \<open>The same world with no image that decodes.\<close>
definition broken_env :: env where
  "broken_env = sample_env\<lparr>ReadImage := (\<lambda>p. None)\<rparr>"

section \<open>The loops\<close>

subsection \<open>The rig of rotations\<close>

lemma rotations_loop_eq:
  "rotations_loop a n i acc = acc @ map (\<lambda>k. RotationAroundY (a * real_of_int k)) [i..n - 1]"
proof (induction a n i acc rule: rotations_loop.induct)
  case (1 a n i acc)
  show ?case
  proof (cases "i < n")
    case True
    then have "[i..n - 1] = i # [i + 1..n - 1]"
      by (simp add: upto_rec1)
    with True 1 show ?thesis
      by (subst rotations_loop.simps) simp
  next
    case False
    then show ?thesis
      by (subst rotations_loop.simps) simp
  qed
qed

lemma camera_rotations_eq:
  "camera_rotations opts =
     map (\<lambda>k. RotationAroundY (alpha opts * real_of_int k)) [0..nb_split opts - 1]"
  by (simp add: camera_rotations_def rotations_loop_eq)

lemma length_camera_rotations: "length (camera_rotations opts) = nat (nb_split opts)"
  by (simp add: camera_rotations_eq)

lemma nth_camera_rotations:
  "i < nat (nb_split opts) \<Longrightarrow>
     camera_rotations opts ! i = RotationAroundY (alpha opts * real i)"
  by (simp add: camera_rotations_eq)

lemma alpha_times:
  "0 < nb_split opts \<Longrightarrow> alpha opts * real i = 2 * pi * real i / real_of_int (nb_split opts)"
  by (simp add: alpha_def)

lemma RotationAroundY_0: "RotationAroundY 0 = Identity3"
  by (simp add: RotationAroundY_def Identity3_def)

subsection \<open>The loops of conversion mode\<close>

lemma save_images_eq:
  "save_images E opts f sampled i =
     concat (map (\<lambda>k. [Cout (basename_part E f @ '' cam index: '' @ show_int k),
                         WriteImage (output_name E opts f k) (sampled ! nat k)])
                 [i..int (length (camera_rotations opts)) - 1])"
proof (induction E opts f sampled i rule: save_images.induct)
  case (1 E opts f sampled i)
  show ?case
  proof (cases "i < int (length (camera_rotations opts))")
    case True
    then have "[i..int (length (camera_rotations opts)) - 1]
                 = i # [i + 1..int (length (camera_rotations opts)) - 1]"
      by (simp add: upto_rec1)
    with True 1 show ?thesis
      by (subst save_images.simps) simp
  next
    case False
    then show ?thesis
      by (subst save_images.simps) simp
  qed
qed

lemma convert_images_eq:
  "convert_images E opts fs = concat (map (convert_image E opts) fs)"
  by (induction fs) simp_all

lemma sampled_images_eq:
  "sampled_images opts
     = replicate (nat (nb_split opts)) (Image (image_resolution opts) (image_resolution opts) BLACK)"
  by (simp add: sampled_images_def length_camera_rotations)

lemma nth_SphericalToPinholes:
  assumes "k < length (camera_rotations opts)"
  shows "SphericalToPinholes E img cam (sampled_images opts) (camera_rotations opts) ! k
           = resample E img cam (camera_rotations opts ! k)
               (Image (image_resolution opts) (image_resolution opts) BLACK)"
  using assms by (simp add: SphericalToPinholes_def sampled_images_def)

subsection \<open>The border loops of demo mode\<close>

text \<open>
  With a positive resolution each border loop takes the eleven samples
  \<open>j = k * res / 10\<close>, \<open>k = 0, ..., 10\<close>, and stops.
\<close>

lemma vertical_border_steps:
  assumes "0 < res" "k \<le> 11"
  shows "vertical_border P res (real k * res / 10) svg =
           Some (svg @ concat (map (\<lambda>i. vertical_pair P res (real i * res / 10)) [k..<11]))"
  using assms
proof (induction "11 - k" arbitrary: k svg)
  case 0
  then have k: "k = 11" by simp
  have "\<not> real k * res / 10 \<le> res" using \<open>0 < res\<close> by (simp add: k)
  then show ?case
    by (subst vertical_border.simps) (simp add: k)
next
  case (Suc d)
  then have k: "k < 11" by simp
  then have le: "real k * res / 10 \<le> res"
    using \<open>0 < res\<close> by (simp add: field_simps)
  have next_j: "real k * res / 10 + res / real_of_int step = real (Suc k) * res / 10"
    by (simp add: step_def field_simps)
  have upt: "[k..<11] = k # [Suc k..<11]"
    using k by (simp add: upt_conv_Cons)
  have unfold: "vertical_border P res (real k * res / 10) svg
          = vertical_border P res (real (Suc k) * res / 10) (svg @ vertical_pair P res (real k * res / 10))"
    by (subst vertical_border.simps) (simp only: le if_True next_j)
  have "vertical_border P res (real (Suc k) * res / 10) (svg @ vertical_pair P res (real k * res / 10))
          = Some ((svg @ vertical_pair P res (real k * res / 10))
                  @ concat (map (\<lambda>i. vertical_pair P res (real i * res / 10)) [Suc k..<11]))"
    using Suc.hyps(2) k \<open>0 < res\<close> by (intro Suc.hyps(1)) simp_all
  then show ?case
    by (simp only: unfold upt list.map concat.simps append_assoc)
qed

lemma horizontal_border_steps:
  assumes "0 < res" "k \<le> 11"
  shows "horizontal_border P res (real k * res / 10) svg =
           Some (svg @ concat (map (\<lambda>i. horizontal_pair P res (real i * res / 10)) [k..<11]))"
  using assms
proof (induction "11 - k" arbitrary: k svg)
  case 0
  then have k: "k = 11" by simp
  have "\<not> real k * res / 10 \<le> res" using \<open>0 < res\<close> by (simp add: k)
  then show ?case
    by (subst horizontal_border.simps) (simp add: k)
next
  case (Suc d)
  then have k: "k < 11" by simp
  then have le: "real k * res / 10 \<le> res"
    using \<open>0 < res\<close> by (simp add: field_simps)
  have next_j: "real k * res / 10 + res / real_of_int step = real (Suc k) * res / 10"
    by (simp add: step_def field_simps)
  have upt: "[k..<11] = k # [Suc k..<11]"
    using k by (simp add: upt_conv_Cons)
  have unfold: "horizontal_border P res (real k * res / 10) svg
          = horizontal_border P res (real (Suc k) * res / 10) (svg @ horizontal_pair P res (real k * res / 10))"
    by (subst horizontal_border.simps) (simp only: le if_True next_j)
  have "horizontal_border P res (real (Suc k) * res / 10) (svg @ horizontal_pair P res (real k * res / 10))
          = Some ((svg @ horizontal_pair P res (real k * res / 10))
                  @ concat (map (\<lambda>i. horizontal_pair P res (real i * res / 10)) [Suc k..<11]))"
    using Suc.hyps(2) k \<open>0 < res\<close> by (intro Suc.hyps(1)) simp_all
  then show ?case
    by (simp only: unfold upt list.map concat.simps append_assoc)
qed

lemma draw_camera_eq:
  assumes "0 < res"
  shows "draw_camera E cam res R svg = Some (svg @ camera_markers (sphere_proj E cam R) res)"
proof -
  have v: "vertical_border (sphere_proj E cam R) res 0 svg =
             Some (svg @ concat (map (\<lambda>i. vertical_pair (sphere_proj E cam R) res (real i * res / 10)) [0..<11]))"
    using vertical_border_steps [OF assms, of 0 "sphere_proj E cam R" svg] by simp
  have h: "horizontal_border (sphere_proj E cam R) res 0 svg1 =
             Some (svg1 @ concat (map (\<lambda>i. horizontal_pair (sphere_proj E cam R) res (real i * res / 10)) [0..<11]))"
    for svg1
    using horizontal_border_steps [OF assms, of 0 "sphere_proj E cam R" svg1] by simp
  show ?thesis
    by (simp only: draw_camera_def v h option.case camera_markers_def append_assoc)
qed

lemma draw_cameras_eq:
  assumes "0 < res"
  shows "draw_cameras E cam res Rs svg =
           Some (svg @ concat (map (\<lambda>R. camera_markers (sphere_proj E cam R) res) Rs))"
proof (induction Rs arbitrary: svg)
  case Nil
  show ?case by simp
next
  case (Cons R Rs)
  show ?case
    by (simp add: draw_camera_eq [OF assms] Cons.IH)
qed

text \<open>
  With the resolution zero the increment is zero, \<open>j\<close> stays at zero and the loop
  condition \<open>j \<le> 0\<close> stays true: the loop returns nothing.
\<close>

lemma vertical_border_stuck:
  assumes "vertical_border P res j svg = Some y"
  shows "\<not> (res = 0 \<and> j = 0)"
proof -
  have "(\<lambda>(((P, res), j), svg) y. \<not> (res = 0 \<and> j = 0)) (((P, res), j), svg) y"
  proof (rule vertical_border.raw_induct [OF _ assms])
    fix vb proj res j svg y
    assume IH: "\<And>proj res j svg y. vb proj res j svg = Some y \<Longrightarrow>
                  (\<lambda>(((P, res), j), svg) y. \<not> (res = 0 \<and> j = (0::real))) (((proj, res), j), svg) y"
      and eq: "(if j \<le> res then vb proj res (j + res / real_of_int step) (svg @ vertical_pair proj res j)
                else Some svg) = Some y"
    show "(\<lambda>(((P, res), j), svg) y. \<not> (res = 0 \<and> j = 0)) (((proj, res), j), svg) y"
    proof (clarsimp)
      assume z: "res = 0" "j = 0"
      with eq have "vb proj 0 0 (svg @ vertical_pair proj 0 0) = Some y"
        by simp
      from IH [OF this] show False by simp
    qed
  qed
  then show ?thesis by simp
qed

lemma vertical_border_zero: "vertical_border P 0 0 svg = None"
proof (cases "vertical_border P 0 0 svg")
  case None
  then show ?thesis .
next
  case (Some y)
  then show ?thesis
    using vertical_border_stuck [of P 0 0 svg y] by simp
qed

subsection \<open>Decimal output\<close>

lemma digits_not_Nil: "digits n \<noteq> []"
  by (subst digits.simps) simp

lemma digit_char_inj:
  assumes "a < 10" "b < 10" "''0123456789'' ! a = ''0123456789'' ! b"
  shows "a = b"
proof -
  have "distinct ''0123456789''" by simp
  moreover have "a < length ''0123456789''" "b < length ''0123456789''"
    using assms by simp_all
  ultimately show ?thesis
    using assms(3) by (simp only: nth_eq_iff_index_eq)
qed

lemma digits_inj: "digits n = digits m \<Longrightarrow> n = m"
proof (induction n arbitrary: m rule: digits.induct)
  case (1 n)
  show ?case
  proof (cases "n < 10")
    case small_n: True
    then have dn: "digits n = [''0123456789'' ! n]"
      by (subst digits.simps) simp
    show ?thesis
    proof (cases "m < 10")
      case True
      then have "digits m = [''0123456789'' ! m]"
        by (subst digits.simps) simp
      with dn 1(2) have "''0123456789'' ! n = ''0123456789'' ! m" by simp
      with small_n True show ?thesis by (rule digit_char_inj)
    next
      case False
      then have "digits m = digits (m div 10) @ [''0123456789'' ! (m mod 10)]"
        by (subst digits.simps) simp
      with dn 1(2) have "digits (m div 10) = []" by simp
      then show ?thesis by (simp add: digits_not_Nil)
    qed
  next
    case big_n: False
    then have dn: "digits n = digits (n div 10) @ [''0123456789'' ! (n mod 10)]"
      by (subst digits.simps) simp
    show ?thesis
    proof (cases "m < 10")
      case True
      then have "digits m = [''0123456789'' ! m]"
        by (subst digits.simps) simp
      with dn 1(2) have "digits (n div 10) = []" by simp
      then show ?thesis by (simp add: digits_not_Nil)
    next
      case False
      then have "digits m = digits (m div 10) @ [''0123456789'' ! (m mod 10)]"
        by (subst digits.simps) simp
      with dn 1(2) have tens: "digits (n div 10) = digits (m div 10)"
        and units: "''0123456789'' ! (n mod 10) = ''0123456789'' ! (m mod 10)"
        by simp_all
      from 1(1) [OF big_n tens] have q: "n div 10 = m div 10" .
      have "n mod 10 < 10" "m mod 10 < 10" by simp_all
      from digit_char_inj [OF this units] have r: "n mod 10 = m mod 10" .
      from q r show ?thesis
        by (metis div_mult_mod_eq)
    qed
  qed
qed

lemma show_int_inj:
  assumes "0 \<le> i" "0 \<le> j" "show_int i = show_int j"
  shows "i = j"
proof -
  from assms have "digits (nat i) = digits (nat j)" by (simp add: show_int_def)
  then have "nat i = nat j" by (rule digits_inj)
  with assms(1,2) show ?thesis by simp
qed

lemma show_int_small [simp]:
  "show_int 0 = ''0''" "show_int 1 = ''1''" "show_int 2 = ''2''" "show_int 3 = ''3''" "show_int 4 = ''4''"
  by (simp_all add: show_int_def digits.simps)

lemma upto_0_4: "[0..(4::int)] = [0, 1, 2, 3, 4]"
  by (simp add: upto_rec1)

subsection \<open>The focal length\<close>

lemma tan_D2R_90: "tan (D2R 90 / 2) = 1"
proof -
  have "D2R 90 / 2 = pi / 4" by (simp add: D2R_def)
  then show ?thesis by (simp only: tan_45)
qed

lemma tan_D2R_60: "tan (D2R 60 / 2) = 1 / sqrt 3"
proof -
  have "D2R 60 / 2 = pi / 6" by (simp add: D2R_def)
  then show ?thesis by (simp only: tan_30)
qed

lemma focal_90: "FocalFromPinholeHeight 1024 (D2R 90) = 512"
  by (simp add: FocalFromPinholeHeight_def tan_D2R_90)

lemma focal_60: "FocalFromPinholeHeight 1024 (D2R 60) = 512 * sqrt 3"
  by (simp add: FocalFromPinholeHeight_def tan_D2R_60)

lemma focal_positive:
  assumes "0 < h" "0 < fov_deg" "fov_deg < 180"
  shows "0 < FocalFromPinholeHeight h (D2R fov_deg)"
proof -
  have "0 < D2R fov_deg / 2" using assms by (simp add: D2R_def)
  moreover have "D2R fov_deg / 2 < pi / 2" using assms by (simp add: D2R_def)
  ultimately have "0 < tan (D2R fov_deg / 2)" by (rule tan_gt_zero)
  with assms(1) show ?thesis by (simp add: FocalFromPinholeHeight_def)
qed

section \<open>The effects of a run\<close>

subsection \<open>Images and files written\<close>

lemma written_images_append [simp]:
  "written_images (xs @ ys) = written_images xs @ written_images ys"
  by (simp add: written_images_def)

lemma written_images_Cons [simp]:
  "written_images (e # tr) = image_written e @ written_images tr"
  by (simp add: written_images_def)

lemma written_images_Nil [simp]: "written_images [] = []"
  by (simp add: written_images_def)

lemma written_images_concat:
  "written_images (concat xss) = concat (map written_images xss)"
  by (induction xss) simp_all

lemma written_files_append [simp]:
  "written_files (xs @ ys) = written_files xs @ written_files ys"
  by (simp add: written_files_def)

lemma written_files_Cons [simp]:
  "written_files (e # tr) = file_written e @ written_files tr"
  by (simp add: written_files_def)

lemma written_files_Nil [simp]: "written_files [] = []"
  by (simp add: written_files_def)

lemma written_files_concat:
  "written_files (concat xss) = concat (map written_files xss)"
  by (induction xss) simp_all

lemma written_images_output_dir [simp]: "written_images (output_dir_events E opts) = []"
  by (simp add: output_dir_events_def)

lemma written_files_output_dir [simp]: "written_files (output_dir_events E opts) = []"
  by (simp add: output_dir_events_def)

lemma focal_file_written [simp]:
  "image_written (focal_file E opts) = []"
  "file_written (focal_file E opts)
     = [(create_filespec E (s_directory_out opts) ''focal.txt'', FocalText (focal opts))]"
  by (simp_all add: focal_file_def)

lemma written_images_save:
  "written_images (concat (map (\<lambda>k. [Cout (c k), WriteImage (p k) (im k)]) ks))
     = map (\<lambda>k. (p k, im k)) ks"
  by (induction ks) simp_all

lemma written_files_save:
  "written_files (concat (map (\<lambda>k. [Cout (c k), WriteImage (p k) (im k)]) ks)) = []"
  by (induction ks) simp_all

lemma convert_image_failed:
  assumes "ReadImage E (create_filespec E (s_directory_in opts) f) = None"
  shows "convert_image E opts f =
           [Cerr (''Cannot read the image: '' @ create_filespec E (s_directory_in opts) f)]"
  using assms by (simp add: convert_image_def)

lemma convert_image_decoded:
  assumes "ReadImage E (create_filespec E (s_directory_in opts) f) = Some img"
  shows "written_images (convert_image E opts f) = pinhole_files E opts f img"
proof -
  let ?S = "SphericalToPinholes E img (pinhole_camera E opts) (sampled_images opts) (camera_rotations opts)"
  have "written_images (convert_image E opts f)
          = map (\<lambda>k. (output_name E opts f k, ?S ! nat k)) [0..int (length (camera_rotations opts)) - 1]"
    using assms by (simp add: convert_image_def save_images_eq written_images_save)
  also have "\<dots> = pinhole_files E opts f img"
    unfolding pinhole_files_def
  proof (rule map_cong)
    show "[0..int (length (camera_rotations opts)) - 1] = [0..nb_split opts - 1]"
      by (cases "0 \<le> nb_split opts") (simp_all add: length_camera_rotations)
  next
    fix k assume "k \<in> set [0..nb_split opts - 1]"
    then have "nat k < length (camera_rotations opts)"
      by (auto simp: length_camera_rotations)
    then show "(output_name E opts f k, ?S ! nat k)
                 = (s_directory_out opts @ ''/'' @ basename_part E f @ ''_'' @ show_int k @ ''.jpg'',
                    resample E img (pinhole_camera E opts) (camera_rotations opts ! nat k)
                      (Image (image_resolution opts) (image_resolution opts) BLACK))"
      by (simp add: output_name_def nth_SphericalToPinholes)
  qed
  finally show ?thesis .
qed

lemma written_images_convert_image:
  "written_images (convert_image E opts f)
     = (case ReadImage E (create_filespec E (s_directory_in opts) f) of
          None \<Rightarrow> [] | Some img \<Rightarrow> pinhole_files E opts f img)"
  by (simp add: convert_image_decoded convert_image_failed split: option.split)

lemma written_files_convert_image [simp]: "written_files (convert_image E opts f) = []"
  by (simp add: convert_image_def save_images_eq written_files_save split: option.split)

lemma written_files_convert_images:
  "written_files (concat (map (convert_image E opts) fs)) = []"
  by (induction fs) simp_all

lemma length_pinhole_files: "length (pinhole_files E opts f img) = nat (nb_split opts)"
  by (simp add: pinhole_files_def)

lemma distinct_pinhole_files: "distinct (map fst (pinhole_files E opts f img))"
proof -
  have "inj_on (\<lambda>k. s_directory_out opts @ ''/'' @ basename_part E f @ ''_'' @ show_int k @ ''.jpg'')
          (set [0..nb_split opts - 1])"
    by (rule inj_onI) (auto dest: show_int_inj)
  then show ?thesis
    by (simp add: pinhole_files_def comp_def distinct_map)
qed

subsection \<open>Events of either mode\<close>

lemma no_conversion_event_output_dir [simp]:
  "\<not> list_ex conversion_event (output_dir_events E opts)"
  by (simp add: output_dir_events_def)

lemma no_diagnostic_event_output_dir [simp]:
  "\<not> list_ex diagnostic_event (output_dir_events E opts)"
  by (simp add: output_dir_events_def)

lemma no_diagnostic_event_save:
  "\<not> list_ex diagnostic_event (concat (map (\<lambda>k. [Cout (c k), WriteImage (p k) (im k)]) ks))"
  by (induction ks) simp_all

lemma no_diagnostic_event_convert_image:
  "\<not> list_ex diagnostic_event (convert_image E opts f)"
  by (simp add: convert_image_def save_images_eq no_diagnostic_event_save split: option.split)

lemma no_diagnostic_event_convert_images:
  "\<not> list_ex diagnostic_event (convert_images E opts fs)"
  by (induction fs) (simp_all add: no_diagnostic_event_convert_image)

subsection \<open>The run after the command line\<close>

lemma after_Some [simp]: "after evs (Some (tr, code)) = Some (evs @ tr, code)"
  by (simp add: after_def)

lemma after_None [simp]: "after evs None = None"
  by (simp add: after_def)

lemma body_conversion:
  assumes "startup_checks_pass E opts" "\<not> used_D opts"
  shows "body E opts =
           Some (output_dir_events E opts
                 @ concat (map (convert_image E opts) (folder_wildcard E (s_directory_in opts)))
                 @ [focal_file E opts], EXIT_SUCCESS)"
  using assms
  by (auto simp: startup_checks_pass_def body_def conversion_mode_def convert_images_eq)

lemma demo_mode_eq:
  assumes "0 < image_resolution opts"
  shows "demo_mode E opts =
           Some ([WriteFile (create_filespec E (s_directory_out opts) ''test.svg'')
                    (SvgDoc pano_width pano_height
                       (reference_lines
                        @ concat (map (\<lambda>R. camera_markers (sphere_proj E (pinhole_camera E opts) R)
                                              (real_of_int (image_resolution opts)))
                                      (camera_rotations opts))))],
                 EXIT_SUCCESS)"
proof -
  have "0 < real_of_int (image_resolution opts)" using assms by simp
  from draw_cameras_eq [OF this] show ?thesis
    by (simp add: demo_mode_def)
qed

lemma body_demo:
  assumes "startup_checks_pass E opts" "used_D opts" "0 < image_resolution opts"
  shows "body E opts =
           Some (output_dir_events E opts
                 @ [WriteFile (create_filespec E (s_directory_out opts) ''test.svg'')
                      (SvgDoc pano_width pano_height
                         (reference_lines
                          @ concat (map (\<lambda>R. camera_markers (sphere_proj E (pinhole_camera E opts) R)
                                                (real_of_int (image_resolution opts)))
                                        (camera_rotations opts))))],
                 EXIT_SUCCESS)"
  using assms(1,2)
  by (auto simp: startup_checks_pass_def body_def demo_mode_eq [OF assms(3)])

lemma demo_mode_trace:
  assumes "demo_mode E opts = Some (tr, code)"
  shows "\<not> list_ex conversion_event tr \<and> list_ex diagnostic_event tr \<and> code = EXIT_SUCCESS"
  using assms by (auto simp: demo_mode_def split: option.splits)

lemma body_demo_switch:
  assumes "body E opts = Some (tr, code)" "used_D opts"
  shows "\<not> list_ex conversion_event tr"
proof -
  consider (failed) msgs where "tr = msgs" "\<not> list_ex conversion_event msgs"
    | (demo) tr' where "demo_mode E opts = Some (tr', code)" "tr = output_dir_events E opts @ tr'"
    using assms
    by (auto simp: body_def after_def split: if_splits option.splits)
  then show ?thesis
  proof cases
    case failed
    then show ?thesis by simp
  next
    case demo
    with demo_mode_trace [OF demo(1)] show ?thesis by simp
  qed
qed

lemma body_no_demo_switch:
  assumes "body E opts = Some (tr, code)" "\<not> used_D opts"
  shows "\<not> list_ex diagnostic_event tr"
  using assms
  by (auto simp: body_def after_def conversion_mode_def focal_file_def
      no_diagnostic_event_convert_images split: if_splits)

text \<open>
  The usage text is the only effect of reading the command line: the exit code, the images
  and the files of a run are those of what follows.
\<close>
lemma main_after_command_line:
  "exit_code (main E argv0 args) = exit_code (body E (snd (read_command_line E argv0 args)))"
  "written_images (trace_of (main E argv0 args))
     = written_images (trace_of (body E (snd (read_command_line E argv0 args))))"
  "written_files (trace_of (main E argv0 args))
     = written_files (trace_of (body E (snd (read_command_line E argv0 args))))"
proof -
  obtain evs opts where r: "read_command_line E argv0 args = (evs, opts)"
    by (cases "read_command_line E argv0 args")
  then have evs: "evs = [] \<or> (\<exists>a b c d. evs = [Usage a b c d])"
    by (auto simp: read_command_line_def Let_def split: prod.splits if_splits)
  show "exit_code (main E argv0 args) = exit_code (body E (snd (read_command_line E argv0 args)))"
    by (cases "body E opts") (auto simp: main_def r exit_code_def)
  show "written_images (trace_of (main E argv0 args))
          = written_images (trace_of (body E (snd (read_command_line E argv0 args))))"
    using evs by (cases "body E opts") (auto simp: main_def r trace_of_def)
  show "written_files (trace_of (main E argv0 args))
          = written_files (trace_of (body E (snd (read_command_line E argv0 args))))"
    using evs by (cases "body E opts") (auto simp: main_def r trace_of_def)
qed

lemma negative_options_rejected:
  assumes "image_resolution opts < 0 \<or> nb_split opts < 0"
  shows "body E opts = Some ([Cerr ''image_resolution must be larger than 0''], EXIT_FAILURE)
         \<or> body E opts = Some ([Cerr ''nb_split must be larger than 0''], EXIT_FAILURE)"
  using assms by (auto simp: body_def)

lemma demo_zero_resolution_diverges:
  assumes "startup_checks_pass E opts" "used_D opts" "image_resolution opts = 0" "0 < nb_split opts"
  shows "body E opts = None"
proof -
  have "0 < nat (nb_split opts)" using assms(4) by simp
  then obtain R Rs where rots: "camera_rotations opts = R # Rs"
    by (cases "camera_rotations opts") (simp_all flip: length_camera_rotations)
  have "draw_camera E cam 0 R svg = None" for cam svg
    by (simp add: draw_camera_def vertical_border_zero)
  then have "demo_mode E opts = None"
    by (simp add: demo_mode_def rots assms(3))
  with assms(1,2) show ?thesis
    by (auto simp: body_def startup_checks_pass_def)
qed

subsection \<open>The small world\<close>

lemma sample_basics:
  "s_directory_in sample_options = ''in''"
  "s_directory_out sample_options = ''out''"
  "nb_split sample_options = 5"
  "image_resolution sample_options = 1024"
  "fov sample_options = 60"
  "folder_wildcard sample_env ''in'' = [''pano.jpg'', ''broken.jpg'']"
  "is_folder sample_env ''out''"
  "create_filespec sample_env d f = d @ ''/'' @ f"
  "ReadImage sample_env ''in/pano.jpg'' = Some pano"
  "ReadImage sample_env ''in/broken.jpg'' = None"
  "basename_part sample_env ''pano.jpg'' = ''pano''"
  "resample sample_env img cam R out = out"
  by (simp_all add: sample_env_def sample_options_def default_options_def)

lemma sample_startup: "startup_checks_pass sample_env sample_options"
  by (simp add: startup_checks_pass_def sample_env_def sample_options_def default_options_def)

lemma sample_not_demo: "\<not> used_D sample_options"
  by (simp add: sample_options_def default_options_def)

lemma focal_sample: "focal sample_options = 512 * sqrt 3"
  by (simp add: focal_def sample_basics focal_60)

lemma broken_startup: "startup_checks_pass broken_env sample_options"
  by (simp add: startup_checks_pass_def broken_env_def sample_env_def sample_options_def
      default_options_def)

lemma demo_startup: "startup_checks_pass sample_env demo_options"
  by (simp add: startup_checks_pass_def demo_options_def sample_env_def sample_options_def
      default_options_def)

lemma demo_basics:
  "used_D demo_options" "image_resolution demo_options = 1024" "nb_split demo_options = 5"
  "s_directory_out demo_options = ''out''" "s_directory_in demo_options = ''in''"
  "output_dir_events sample_env demo_options = []"
  by (simp_all add: demo_options_def sample_options_def default_options_def
      output_dir_events_def sample_env_def)

section \<open>The claims\<close>

subsection \<open>The command line\<close>

text \<open>
  Claim C10. Invoked with no command-line argument, the program prints the usage text on
  the error stream and goes on; the two directory options are still empty, so the run
  then reports that they must not be empty and exits with failure.
\<close>
theorem no_arguments_usage_then_failure:
  "main E argv0 [] =
     Some ([Usage argv0 1024 5 60, Cerr ''input_dir and output_dir option must not be empty''],
           EXIT_FAILURE)"
  by (simp add: main_def read_command_line_def body_def default_options_def)

subsection \<open>The startup checks\<close>

text \<open>
  Claim C3 asks that a resolution or a split count that is zero or negative end the run
  with a configuration error before any processing. The checks of lines 65 and 70 test
  \<open>< 0\<close>, while their messages say "must be larger than 0": a zero passes. With
  \<open>nb_split = 0\<close> the conversion runs, writes \<open>focal.txt\<close> and exits with success; with
  \<open>image_resolution = 0\<close> it writes five empty images and exits with success; in demo
  mode with \<open>image_resolution = 0\<close> the border loop adds a zero increment and the run
  never returns.
\<close>
theorem zero_options_pass_the_checks:
  "body sample_env (sample_options\<lparr>nb_split := 0\<rparr>) =
     Some ([Resample pano (ComputeCubicCameraIntrinsics sample_env 1024) [] [],
            Cerr ''Cannot read the image: in/broken.jpg'',
            WriteFile ''out/focal.txt'' (FocalText (512 * sqrt 3))], EXIT_SUCCESS)
   \<and> exit_code (body sample_env (sample_options\<lparr>image_resolution := 0\<rparr>)) = Some EXIT_SUCCESS
   \<and> written_images (trace_of (body sample_env (sample_options\<lparr>image_resolution := 0\<rparr>))) =
        [(''out/pano_0.jpg'', Image 0 0 BLACK), (''out/pano_1.jpg'', Image 0 0 BLACK),
         (''out/pano_2.jpg'', Image 0 0 BLACK), (''out/pano_3.jpg'', Image 0 0 BLACK),
         (''out/pano_4.jpg'', Image 0 0 BLACK)]
   \<and> body sample_env (demo_options\<lparr>image_resolution := 0\<rparr>) = None"
proof -
  let ?o1 = "sample_options\<lparr>nb_split := 0\<rparr>"
  let ?o2 = "sample_options\<lparr>image_resolution := 0\<rparr>"
  let ?o3 = "demo_options\<lparr>image_resolution := 0\<rparr>"
  have s1: "startup_checks_pass sample_env ?o1" and s2: "startup_checks_pass sample_env ?o2"
    and s3: "startup_checks_pass sample_env ?o3"
    by (simp_all add: startup_checks_pass_def sample_basics demo_basics demo_options_def)
  have rots1: "camera_rotations ?o1 = []"
    by (simp add: camera_rotations_eq)
  have c1: "convert_image sample_env ?o1 ''pano.jpg''
              = [Resample pano (ComputeCubicCameraIntrinsics sample_env 1024) [] []]"
    by (simp add: convert_image_def sample_basics save_images_eq rots1 sampled_images_def
        pinhole_camera_def)
  have c1': "convert_image sample_env ?o1 ''broken.jpg'' = [Cerr ''Cannot read the image: in/broken.jpg'']"
    by (simp add: convert_image_def sample_basics)
  have f1: "focal ?o1 = 512 * sqrt 3"
    by (simp add: focal_def sample_basics focal_60)
  have b1: "body sample_env ?o1 =
     Some ([Resample pano (ComputeCubicCameraIntrinsics sample_env 1024) [] [],
            Cerr ''Cannot read the image: in/broken.jpg'',
            WriteFile ''out/focal.txt'' (FocalText (512 * sqrt 3))], EXIT_SUCCESS)"
    using body_conversion [OF s1]
    by (simp add: sample_basics sample_not_demo output_dir_events_def c1 c1' focal_file_def f1)
  have b2: "body sample_env ?o2 =
     Some (convert_image sample_env ?o2 ''pano.jpg'' @ convert_image sample_env ?o2 ''broken.jpg''
           @ [focal_file sample_env ?o2], EXIT_SUCCESS)"
    using body_conversion [OF s2]
    by (simp add: sample_basics sample_not_demo output_dir_events_def)
  have w2: "written_images (convert_image sample_env ?o2 ''pano.jpg'') =
        [(''out/pano_0.jpg'', Image 0 0 BLACK), (''out/pano_1.jpg'', Image 0 0 BLACK),
         (''out/pano_2.jpg'', Image 0 0 BLACK), (''out/pano_3.jpg'', Image 0 0 BLACK),
         (''out/pano_4.jpg'', Image 0 0 BLACK)]"
    by (simp add: written_images_convert_image sample_basics pinhole_files_def upto_0_4)
  have w2': "written_images (convert_image sample_env ?o2 ''broken.jpg'') = []"
    by (simp add: written_images_convert_image sample_basics)
  have b3: "body sample_env ?o3 = None"
    by (rule demo_zero_resolution_diverges [OF s3]) (simp_all add: demo_basics)
  show ?thesis
    by (simp add: b1 b2 b3 w2 w2' exit_code_def trace_of_def)
qed

subsection \<open>The pinhole camera\<close>

text \<open>
  Claim C1 asks that the pinhole camera used for reprojection have the focal length
  \<open>(h / 2) / tan (fov / 2)\<close>. The program computes that value (512 at 90 degrees and
  \<open>512 * sqrt 3\<close> at 60 degrees, for \<open>h = 1024\<close>) and streams it to \<open>focal.txt\<close>,
  but builds the camera from the resolution alone: runs that differ in the field of view
  use a camera of the same focal length, which therefore is not the computed one for
  every field of view.
\<close>
theorem pinhole_camera_ignores_fov:
  "pin_focal (pinhole_camera E (opts\<lparr>fov := 90\<rparr>)) = pin_focal (pinhole_camera E (opts\<lparr>fov := 60\<rparr>))
   \<and> focal (default_options\<lparr>fov := 90\<rparr>) = 512
   \<and> focal (default_options\<lparr>fov := 60\<rparr>) = 512 * sqrt 3
   \<and> \<not> (\<forall>f. pin_focal (pinhole_camera E (default_options\<lparr>fov := f\<rparr>))
               = focal (default_options\<lparr>fov := f\<rparr>))"
proof -
  have f90: "focal (default_options\<lparr>fov := 90\<rparr>) = 512"
    and f60: "focal (default_options\<lparr>fov := 60\<rparr>) = 512 * sqrt 3"
    by (simp_all add: focal_def default_options_def focal_90 focal_60)
  have same: "pinhole_camera E (opts\<lparr>fov := f\<rparr>) = pinhole_camera E opts" for opts f
    by (simp add: pinhole_camera_def)
  have "sqrt 3 \<noteq> 1" by simp
  then have differ: "focal (default_options\<lparr>fov := 90\<rparr>) \<noteq> focal (default_options\<lparr>fov := 60\<rparr>)"
    by (simp add: f90 f60)
  have "\<not> (\<forall>f. pin_focal (pinhole_camera E (default_options\<lparr>fov := f\<rparr>))
               = focal (default_options\<lparr>fov := f\<rparr>))"
  proof
    assume all: "\<forall>f. pin_focal (pinhole_camera E (default_options\<lparr>fov := f\<rparr>))
                       = focal (default_options\<lparr>fov := f\<rparr>)"
    from all have "pin_focal (pinhole_camera E default_options) = focal (default_options\<lparr>fov := 90\<rparr>)"
      by (simp only: same)
    moreover from all have "pin_focal (pinhole_camera E default_options) = focal (default_options\<lparr>fov := 60\<rparr>)"
      by (simp only: same)
    ultimately show False using differ by simp
  qed
  then show ?thesis
    by (simp add: same f90 f60)
qed

subsection \<open>The rig generator\<close>

text \<open>
  Claim C2. For every \<open>nb_split \<ge> 1\<close> the rig has exactly \<open>nb_split\<close> rotations; the
  rotation of index \<open>i\<close> is the rotation of angle \<open>2 pi i / nb_split\<close> about the Y axis;
  the angles increase strictly with the index; rotation 0 is the identity.
\<close>
theorem rig_generator_rotations:
  assumes "1 \<le> nb_split opts"
  shows "length (camera_rotations opts) = nat (nb_split opts)
         \<and> (\<forall>i < nat (nb_split opts).
               camera_rotations opts ! i
                 = RotationAroundY (2 * pi * real i / real_of_int (nb_split opts)))
         \<and> (\<forall>i j. i < j \<and> j < nat (nb_split opts) \<longrightarrow>
               2 * pi * real i / real_of_int (nb_split opts)
                 < 2 * pi * real j / real_of_int (nb_split opts))
         \<and> camera_rotations opts ! 0 = Identity3"
proof (intro conjI allI impI)
  show "length (camera_rotations opts) = nat (nb_split opts)"
    by (rule length_camera_rotations)
next
  fix i assume "i < nat (nb_split opts)"
  then show "camera_rotations opts ! i
               = RotationAroundY (2 * pi * real i / real_of_int (nb_split opts))"
    using assms by (simp add: nth_camera_rotations alpha_times)
next
  fix i j :: nat
  assume "i < j \<and> j < nat (nb_split opts)"
  then have "real i < real j" by simp
  moreover have "0 < real_of_int (nb_split opts)" using assms by simp
  ultimately show "2 * pi * real i / real_of_int (nb_split opts)
                     < 2 * pi * real j / real_of_int (nb_split opts)"
    by (simp add: divide_strict_right_mono)
next
  have "0 < nat (nb_split opts)" using assms by simp
  then have "camera_rotations opts ! 0 = RotationAroundY (alpha opts * real 0)"
    by (rule nth_camera_rotations)
  then show "camera_rotations opts ! 0 = Identity3"
    by (simp add: RotationAroundY_0)
qed

theorem rig_generator_rotations_witness:
  "1 \<le> nb_split default_options
   \<and> length (camera_rotations default_options) = 5
   \<and> camera_rotations default_options ! 1 = RotationAroundY (2 * pi / 5)
   \<and> camera_rotations default_options ! 4 = RotationAroundY (8 * pi / 5)
   \<and> 2 * pi * real 1 / 5 < 2 * pi * real 4 / 5
   \<and> camera_rotations default_options ! 0 = Identity3"
proof -
  have n: "nb_split default_options = 5" by (simp add: default_options_def)
  then have h: "1 \<le> nb_split default_options" by simp
  show ?thesis
    using rig_generator_rotations [OF h] by (simp add: n)
qed

subsection \<open>The document of demo mode\<close>

lemma length_filter_concat_const:
  assumes "\<And>x. x \<in> set xs \<Longrightarrow> length (filter Q (f x)) = c"
  shows "length (filter Q (concat (map f xs))) = c * length xs"
  using assms by (induction xs) simp_all

lemma camera_markers_counts:
  "length (filter is_circle (camera_markers proj res)) = 44"
  "length (filter (has_colour ''green'') (camera_markers proj res)) = 22"
  "length (filter (has_colour ''yellow'') (camera_markers proj res)) = 22"
  "filter (\<lambda>p. \<not> is_circle p) (camera_markers proj res) = []"
proof -
  have v: "length (filter Q (concat (map (\<lambda>i. vertical_pair proj res (real i * res / 10)) [0..<11])))
             = c * 11"
    if "\<And>j. length (filter Q (vertical_pair proj res j)) = c" for Q c
    using length_filter_concat_const [of "[0..<11]" Q "\<lambda>i. vertical_pair proj res (real i * res / 10)" c]
      that by simp
  have h: "length (filter Q (concat (map (\<lambda>i. horizontal_pair proj res (real i * res / 10)) [0..<11])))
             = c * 11"
    if "\<And>j. length (filter Q (horizontal_pair proj res j)) = c" for Q c
    using length_filter_concat_const [of "[0..<11]" Q "\<lambda>i. horizontal_pair proj res (real i * res / 10)" c]
      that by simp
  show "length (filter is_circle (camera_markers proj res)) = 44"
    using v [of is_circle 2] h [of is_circle 2]
    by (simp add: camera_markers_def vertical_pair_def horizontal_pair_def drawCircle_def)
  show "length (filter (has_colour ''green'') (camera_markers proj res)) = 22"
    using v [of "has_colour ''green''" 2] h [of "has_colour ''green''" 0]
    by (simp add: camera_markers_def vertical_pair_def horizontal_pair_def drawCircle_def)
  show "length (filter (has_colour ''yellow'') (camera_markers proj res)) = 22"
    using v [of "has_colour ''yellow''" 0] h [of "has_colour ''yellow''" 2]
    by (simp add: camera_markers_def vertical_pair_def horizontal_pair_def drawCircle_def)
  have "length (filter (\<lambda>p. \<not> is_circle p) (camera_markers proj res)) = 0"
    using v [of "\<lambda>p. \<not> is_circle p" 0] h [of "\<lambda>p. \<not> is_circle p" 0]
    by (simp add: camera_markers_def vertical_pair_def horizontal_pair_def drawCircle_def)
  then show "filter (\<lambda>p. \<not> is_circle p) (camera_markers proj res) = []"
    by simp
qed

lemma rig_markers_counts:
  "length (filter is_circle (concat (map (\<lambda>R. camera_markers (proj R) res) Rs))) = 44 * length Rs"
  "length (filter (has_colour ''green'') (concat (map (\<lambda>R. camera_markers (proj R) res) Rs)))
     = 22 * length Rs"
  "length (filter (has_colour ''yellow'') (concat (map (\<lambda>R. camera_markers (proj R) res) Rs)))
     = 22 * length Rs"
  "filter (\<lambda>p. \<not> is_circle p) (concat (map (\<lambda>R. camera_markers (proj R) res) Rs)) = []"
  by (induction Rs) (simp_all add: camera_markers_counts)

lemma reference_lines_counts:
  "filter is_circle reference_lines = []"
  "filter (has_colour c) reference_lines = []"
  "filter (\<lambda>p. \<not> is_circle p) reference_lines = reference_lines"
  by (simp_all add: reference_lines_def)

text \<open>
  Claim C4, as amended. In demo mode with \<open>nb_split = 5\<close>, \<open>step = 10\<close> and the default
  resolution 1024, the document holds \<open>5 * 4 * (step + 1) = 220\<close> circles, four border
  runs per camera: \<open>5 * 2 * (step + 1)\<close> green ones for the left and right borders and as
  many yellow ones for the top and bottom borders; everything else in it is the two
  reference diagonals.
\<close>
theorem demo_document_markers:
  assumes "startup_checks_pass E opts" "used_D opts"
    and "nb_split opts = 5" "image_resolution opts = 1024"
  shows "\<exists>svg. body E opts =
           Some (output_dir_events E opts
                 @ [WriteFile (create_filespec E (s_directory_out opts) ''test.svg'')
                      (SvgDoc pano_width pano_height svg)], EXIT_SUCCESS)
         \<and> circle_count svg = 5 * 4 * (nat step + 1)
         \<and> colour_count ''green'' svg = 5 * 2 * (nat step + 1)
         \<and> colour_count ''yellow'' svg = 5 * 2 * (nat step + 1)
         \<and> other_prims svg = [Line 0 0 4096 2048, Line 4096 0 0 2048]"
proof -
  let ?svg = "reference_lines
              @ concat (map (\<lambda>R. camera_markers (sphere_proj E (pinhole_camera E opts) R)
                                    (real_of_int (image_resolution opts)))
                            (camera_rotations opts))"
  have pos: "0 < image_resolution opts" using assms(4) by simp
  have n: "length (camera_rotations opts) = 5"
    by (simp add: length_camera_rotations assms(3))
  have b: "body E opts =
           Some (output_dir_events E opts
                 @ [WriteFile (create_filespec E (s_directory_out opts) ''test.svg'')
                      (SvgDoc pano_width pano_height ?svg)], EXIT_SUCCESS)"
    by (rule body_demo [OF assms(1,2) pos])
  have circles: "length (filter is_circle ?svg) = 5 * 4 * (nat step + 1)"
    by (simp add: rig_markers_counts reference_lines_counts n step_def)
  have green: "length (filter (has_colour ''green'') ?svg) = 5 * 2 * (nat step + 1)"
    by (simp add: rig_markers_counts reference_lines_counts n step_def)
  have yellow: "length (filter (has_colour ''yellow'') ?svg) = 5 * 2 * (nat step + 1)"
    by (simp add: rig_markers_counts reference_lines_counts n step_def)
  have lines: "filter (\<lambda>p. \<not> is_circle p) ?svg = [Line 0 0 4096 2048, Line 4096 0 0 2048]"
    by (simp add: rig_markers_counts reference_lines_counts)
       (simp add: reference_lines_def pano_width_def pano_height_def)
  show ?thesis
    unfolding circle_count_def colour_count_def other_prims_def
    using b circles green yellow lines by blast
qed

theorem demo_document_markers_witness:
  "startup_checks_pass sample_env demo_options \<and> used_D demo_options
   \<and> nb_split demo_options = 5 \<and> image_resolution demo_options = 1024
   \<and> exit_code (body sample_env demo_options) = Some EXIT_SUCCESS
   \<and> map circle_count (documents (body sample_env demo_options)) = [220]
   \<and> map (colour_count ''green'') (documents (body sample_env demo_options)) = [110]
   \<and> map (colour_count ''yellow'') (documents (body sample_env demo_options)) = [110]
   \<and> map other_prims (documents (body sample_env demo_options))
        = [[Line 0 0 4096 2048, Line 4096 0 0 2048]]"
proof -
  from demo_document_markers [OF demo_startup demo_basics(1,3,2)]
  obtain svg where b: "body sample_env demo_options =
           Some ([WriteFile ''out/test.svg'' (SvgDoc pano_width pano_height svg)], EXIT_SUCCESS)"
    and counts: "circle_count svg = 220" "colour_count ''green'' svg = 110"
      "colour_count ''yellow'' svg = 110"
      "other_prims svg = [Line 0 0 4096 2048, Line 4096 0 0 2048]"
    by (auto simp: demo_basics sample_basics step_def)
  show ?thesis
    using demo_startup
    by (simp add: b counts documents_def trace_of_def exit_code_def demo_basics)
qed

text \<open>
  Claim C4 as it is written gives \<open>5 * 2 * (step + 1) = 110\<close> circles. Each iteration of
  either border loop draws two circles, one per opposite border, so the document of the
  small world has 220.
\<close>
theorem demo_document_markers_counterexample:
  "map circle_count (documents (body sample_env demo_options)) = [220]
   \<and> map circle_count (documents (body sample_env demo_options)) \<noteq> [5 * 2 * (nat step + 1)]"
proof -
  have pos: "0 < image_resolution demo_options" by (simp add: demo_basics)
  have n: "length (camera_rotations demo_options) = 5"
    by (simp add: length_camera_rotations demo_basics)
  show ?thesis
    by (simp add: body_demo [OF demo_startup demo_basics(1) pos] documents_def trace_of_def
        demo_basics rig_markers_counts reference_lines_counts n step_def circle_count_def)
qed

subsection \<open>Conversion mode\<close>

text \<open>
  Claim C5. In conversion mode a source image that fails to decode costs one line on the
  error stream and nothing else: the loop goes on with the next image, every image that
  decodes gets its \<open>nb_split\<close> output images, and the run still ends with the success
  exit code.
\<close>
theorem decode_failure_is_skipped:
  assumes "startup_checks_pass E opts" "\<not> used_D opts"
  shows "body E opts =
           Some (output_dir_events E opts
                 @ concat (map (convert_image E opts) (folder_wildcard E (s_directory_in opts)))
                 @ [focal_file E opts], EXIT_SUCCESS)
         \<and> (\<forall>f. ReadImage E (create_filespec E (s_directory_in opts) f) = None \<longrightarrow>
                convert_image E opts f =
                  [Cerr (''Cannot read the image: '' @ create_filespec E (s_directory_in opts) f)])
         \<and> (\<forall>f img. ReadImage E (create_filespec E (s_directory_in opts) f) = Some img \<longrightarrow>
                length (written_images (convert_image E opts f)) = nat (nb_split opts))"
  using body_conversion [OF assms]
  by (simp add: convert_image_failed convert_image_decoded length_pinhole_files)

theorem decode_failure_is_skipped_witness:
  "startup_checks_pass sample_env sample_options \<and> \<not> used_D sample_options
   \<and> ReadImage sample_env ''in/pano.jpg'' = Some pano
   \<and> ReadImage sample_env ''in/broken.jpg'' = None
   \<and> body sample_env sample_options =
        Some (convert_image sample_env sample_options ''pano.jpg''
              @ [Cerr ''Cannot read the image: in/broken.jpg'', focal_file sample_env sample_options],
              EXIT_SUCCESS)
   \<and> length (written_images (convert_image sample_env sample_options ''pano.jpg'')) = 5"
proof -
  have files: "folder_wildcard sample_env (s_directory_in sample_options) = [''pano.jpg'', ''broken.jpg'']"
    and dir: "output_dir_events sample_env sample_options = []"
    and good: "ReadImage sample_env (create_filespec sample_env (s_directory_in sample_options) ''pano.jpg'') = Some pano"
    and bad: "ReadImage sample_env (create_filespec sample_env (s_directory_in sample_options) ''broken.jpg'') = None"
    and path: "create_filespec sample_env (s_directory_in sample_options) ''broken.jpg'' = ''in/broken.jpg''"
    and n: "nb_split sample_options = 5"
    by (simp_all add: sample_env_def sample_options_def default_options_def output_dir_events_def)
  note main_fact = decode_failure_is_skipped [OF sample_startup sample_not_demo]
  from main_fact have b: "body sample_env sample_options =
        Some (convert_image sample_env sample_options ''pano.jpg''
              @ convert_image sample_env sample_options ''broken.jpg''
              @ [focal_file sample_env sample_options], EXIT_SUCCESS)"
    by (simp add: files dir)
  from main_fact bad have skip: "convert_image sample_env sample_options ''broken.jpg'' = [Cerr ''Cannot read the image: in/broken.jpg'']"
    by (simp add: path)
  from main_fact good have five: "length (written_images (convert_image sample_env sample_options ''pano.jpg'')) = 5"
    by (simp add: n)
  show ?thesis
    using b skip five sample_startup sample_not_demo
    by (simp add: sample_env_def)
qed

text \<open>
  Claim C6. In conversion mode the images written are, for every source image that
  decodes and every camera index \<open>k\<close> from 0 to \<open>nb_split - 1\<close>, one file
  \<open>{output_dir}/{basename}_{k}.jpg\<close>, resampled into an image allocated at
  \<open>image_resolution\<close> squared and filled with black; the names of one source image are
  pairwise distinct; the only other file written is \<open>focal.txt\<close>, which receives the
  computed focal length.
\<close>
theorem conversion_outputs:
  assumes "startup_checks_pass E opts" "\<not> used_D opts"
  shows "\<exists>tr. body E opts = Some (tr, EXIT_SUCCESS)
           \<and> written_images tr =
               concat (map (\<lambda>f. case ReadImage E (create_filespec E (s_directory_in opts) f) of
                                    None \<Rightarrow> []
                                  | Some img \<Rightarrow>
                                      map (\<lambda>k. (s_directory_out opts @ ''/'' @ basename_part E f
                                                  @ ''_'' @ show_int k @ ''.jpg'',
                                                 resample E img (pinhole_camera E opts)
                                                   (camera_rotations opts ! nat k)
                                                   (Image (image_resolution opts)
                                                      (image_resolution opts) BLACK)))
                                          [0..nb_split opts - 1])
                           (folder_wildcard E (s_directory_in opts)))
           \<and> written_files tr =
               [(create_filespec E (s_directory_out opts) ''focal.txt'', FocalText (focal opts))]
           \<and> (\<forall>f img. ReadImage E (create_filespec E (s_directory_in opts) f) = Some img \<longrightarrow>
                 distinct (map fst (written_images (convert_image E opts f)))
                 \<and> (\<exists>rest. convert_image E opts f =
                       Resample img (pinhole_camera E opts)
                         (replicate (nat (nb_split opts))
                            (Image (image_resolution opts) (image_resolution opts) BLACK))
                         (camera_rotations opts) # rest))"
proof -
  let ?tr = "output_dir_events E opts
             @ concat (map (convert_image E opts) (folder_wildcard E (s_directory_in opts)))
             @ [focal_file E opts]"
  have b: "body E opts = Some (?tr, EXIT_SUCCESS)"
    by (rule body_conversion [OF assms])
  have imgs: "written_images ?tr =
                concat (map (\<lambda>f. case ReadImage E (create_filespec E (s_directory_in opts) f) of
                                    None \<Rightarrow> [] | Some img \<Rightarrow> pinhole_files E opts f img)
                            (folder_wildcard E (s_directory_in opts)))"
    by (simp add: written_images_concat comp_def written_images_convert_image)
  have files: "written_files ?tr =
                 [(create_filespec E (s_directory_out opts) ''focal.txt'', FocalText (focal opts))]"
    by (simp add: written_files_convert_images)
  have each: "distinct (map fst (written_images (convert_image E opts f)))
              \<and> (\<exists>rest. convert_image E opts f =
                    Resample img (pinhole_camera E opts)
                      (replicate (nat (nb_split opts))
                         (Image (image_resolution opts) (image_resolution opts) BLACK))
                      (camera_rotations opts) # rest)"
    if "ReadImage E (create_filespec E (s_directory_in opts) f) = Some img" for f img
    using that
    by (simp add: convert_image_decoded distinct_pinhole_files)
       (simp add: convert_image_def sampled_images_eq)
  show ?thesis
    using b imgs files each unfolding pinhole_files_def by blast
qed

theorem conversion_outputs_witness:
  "startup_checks_pass sample_env sample_options \<and> \<not> used_D sample_options
   \<and> ReadImage sample_env ''in/pano.jpg'' = Some pano
   \<and> exit_code (body sample_env sample_options) = Some EXIT_SUCCESS
   \<and> written_images (trace_of (body sample_env sample_options)) =
        [(''out/pano_0.jpg'', Image 1024 1024 BLACK), (''out/pano_1.jpg'', Image 1024 1024 BLACK),
         (''out/pano_2.jpg'', Image 1024 1024 BLACK), (''out/pano_3.jpg'', Image 1024 1024 BLACK),
         (''out/pano_4.jpg'', Image 1024 1024 BLACK)]
   \<and> written_files (trace_of (body sample_env sample_options)) =
        [(''out/focal.txt'', FocalText (512 * sqrt 3))]"
proof -
  from conversion_outputs [OF sample_startup sample_not_demo]
  obtain tr where b: "body sample_env sample_options = Some (tr, EXIT_SUCCESS)"
    and imgs: "written_images tr =
        [(''out/pano_0.jpg'', Image 1024 1024 BLACK), (''out/pano_1.jpg'', Image 1024 1024 BLACK),
         (''out/pano_2.jpg'', Image 1024 1024 BLACK), (''out/pano_3.jpg'', Image 1024 1024 BLACK),
         (''out/pano_4.jpg'', Image 1024 1024 BLACK)]"
    and files: "written_files tr = [(''out/focal.txt'', FocalText (512 * sqrt 3))]"
    by (auto simp: sample_basics focal_sample upto_0_4)
  show ?thesis
    using b imgs files sample_startup sample_not_demo
    by (simp add: trace_of_def exit_code_def sample_env_def)
qed

text \<open>
  Claim C9. When no discovered source image decodes, conversion mode writes one line on
  the error stream per image, writes no image, still writes \<open>focal.txt\<close>, and ends
  with the success exit code.
\<close>
theorem all_decodes_fail:
  assumes "startup_checks_pass E opts" "\<not> used_D opts"
    and "\<forall>f \<in> set (folder_wildcard E (s_directory_in opts)).
           ReadImage E (create_filespec E (s_directory_in opts) f) = None"
  shows "body E opts =
           Some (output_dir_events E opts
                 @ map (\<lambda>f. Cerr (''Cannot read the image: ''
                                   @ create_filespec E (s_directory_in opts) f))
                       (folder_wildcard E (s_directory_in opts))
                 @ [focal_file E opts], EXIT_SUCCESS)
         \<and> written_images (trace_of (body E opts)) = []
         \<and> written_files (trace_of (body E opts)) =
             [(create_filespec E (s_directory_out opts) ''focal.txt'', FocalText (focal opts))]"
proof -
  have skip: "concat (map (convert_image E opts) fs)
                = map (\<lambda>f. Cerr (''Cannot read the image: ''
                                  @ create_filespec E (s_directory_in opts) f)) fs"
    if "\<forall>f \<in> set fs. ReadImage E (create_filespec E (s_directory_in opts) f) = None" for fs
    using that by (induction fs) (simp_all add: convert_image_failed)
  have b: "body E opts =
           Some (output_dir_events E opts
                 @ map (\<lambda>f. Cerr (''Cannot read the image: ''
                                   @ create_filespec E (s_directory_in opts) f))
                       (folder_wildcard E (s_directory_in opts))
                 @ [focal_file E opts], EXIT_SUCCESS)"
    using body_conversion [OF assms(1,2)] skip [OF assms(3)] by simp
  have no_img: "written_images (map (\<lambda>f. Cerr (m f)) fs) = []" for m and fs :: "string list"
    by (induction fs) simp_all
  have no_file: "written_files (map (\<lambda>f. Cerr (m f)) fs) = []" for m and fs :: "string list"
    by (induction fs) simp_all
  show ?thesis
    by (simp add: b trace_of_def no_img no_file)
qed

theorem all_decodes_fail_witness:
  "startup_checks_pass broken_env sample_options \<and> \<not> used_D sample_options
   \<and> folder_wildcard broken_env (s_directory_in sample_options) = [''pano.jpg'', ''broken.jpg'']
   \<and> ReadImage broken_env ''in/pano.jpg'' = None
   \<and> ReadImage broken_env ''in/broken.jpg'' = None
   \<and> body broken_env sample_options =
        Some ([Cerr ''Cannot read the image: in/pano.jpg'',
               Cerr ''Cannot read the image: in/broken.jpg'',
               WriteFile ''out/focal.txt'' (FocalText (512 * sqrt 3))], EXIT_SUCCESS)
   \<and> written_images (trace_of (body broken_env sample_options)) = []"
proof -
  have none: "\<forall>f \<in> set (folder_wildcard broken_env (s_directory_in sample_options)).
         ReadImage broken_env (create_filespec broken_env (s_directory_in sample_options) f) = None"
    by (simp add: broken_env_def)
  have basics:
    "folder_wildcard broken_env ''in'' = [''pano.jpg'', ''broken.jpg'']"
    "output_dir_events broken_env sample_options = []"
    "create_filespec broken_env d f = d @ ''/'' @ f"
    "s_directory_in sample_options = ''in''"
    for d f
    by (simp_all add: broken_env_def sample_env_def sample_options_def default_options_def
        output_dir_events_def)
  show ?thesis
    using all_decodes_fail [OF broken_startup sample_not_demo none] broken_startup sample_not_demo none
    by (simp add: basics focal_file_def focal_sample sample_basics trace_of_def)
qed

subsection \<open>The two modes\<close>

text \<open>
  Claim C7. A run is in exactly one of two modes, chosen once by the demo switch on the
  validated configuration. With the switch, demo mode runs: the run writes the
  vector-graphics document and ends with success, with no resampling call, no image
  write and no \<open>focal.txt\<close> write. Without the switch, conversion mode runs and ends
  with success, and no document is written. No run has effects of both modes. The
  resolution is positive where demo mode is said to end: the border loops need a
  non-zero increment.
\<close>
theorem one_mode_per_run:
  "(\<forall>tr code. body E opts = Some (tr, code) \<and> used_D opts \<longrightarrow> \<not> list_ex conversion_event tr)
   \<and> (\<forall>tr code. body E opts = Some (tr, code) \<and> \<not> used_D opts \<longrightarrow> \<not> list_ex diagnostic_event tr)
   \<and> (\<forall>tr code. body E opts = Some (tr, code) \<longrightarrow>
         \<not> (list_ex conversion_event tr \<and> list_ex diagnostic_event tr))
   \<and> (startup_checks_pass E opts \<and> 0 < image_resolution opts \<and> used_D opts \<longrightarrow>
         (\<exists>svg. body E opts =
            Some (output_dir_events E opts
                  @ [WriteFile (create_filespec E (s_directory_out opts) ''test.svg'')
                       (SvgDoc pano_width pano_height svg)], EXIT_SUCCESS)))
   \<and> (startup_checks_pass E opts \<and> \<not> used_D opts \<longrightarrow>
         body E opts =
           Some (output_dir_events E opts
                 @ convert_images E opts (folder_wildcard E (s_directory_in opts))
                 @ [focal_file E opts], EXIT_SUCCESS))"
proof (intro conjI allI impI)
  fix tr code assume "body E opts = Some (tr, code) \<and> used_D opts"
  then show "\<not> list_ex conversion_event tr"
    using body_demo_switch by blast
next
  fix tr code assume "body E opts = Some (tr, code) \<and> \<not> used_D opts"
  then show "\<not> list_ex diagnostic_event tr"
    using body_no_demo_switch by blast
next
  fix tr code assume "body E opts = Some (tr, code)"
  then show "\<not> (list_ex conversion_event tr \<and> list_ex diagnostic_event tr)"
    using body_demo_switch body_no_demo_switch by (cases "used_D opts") blast+
next
  assume "startup_checks_pass E opts \<and> 0 < image_resolution opts \<and> used_D opts"
  then show "\<exists>svg. body E opts =
            Some (output_dir_events E opts
                  @ [WriteFile (create_filespec E (s_directory_out opts) ''test.svg'')
                       (SvgDoc pano_width pano_height svg)], EXIT_SUCCESS)"
    using body_demo by blast
next
  assume "startup_checks_pass E opts \<and> \<not> used_D opts"
  then show "body E opts =
           Some (output_dir_events E opts
                 @ convert_images E opts (folder_wildcard E (s_directory_in opts))
                 @ [focal_file E opts], EXIT_SUCCESS)"
    using body_conversion by (simp add: convert_images_eq)
qed

theorem one_mode_per_run_witness:
  "startup_checks_pass sample_env demo_options \<and> used_D demo_options
   \<and> 0 < image_resolution demo_options
   \<and> exit_code (body sample_env demo_options) = Some EXIT_SUCCESS
   \<and> list_ex diagnostic_event (trace_of (body sample_env demo_options))
   \<and> \<not> list_ex conversion_event (trace_of (body sample_env demo_options))
   \<and> startup_checks_pass sample_env sample_options \<and> \<not> used_D sample_options
   \<and> exit_code (body sample_env sample_options) = Some EXIT_SUCCESS
   \<and> list_ex conversion_event (trace_of (body sample_env sample_options))
   \<and> \<not> list_ex diagnostic_event (trace_of (body sample_env sample_options))"
proof -
  note demo = one_mode_per_run [of sample_env demo_options]
  note conv = one_mode_per_run [of sample_env sample_options]
  have pos: "0 < image_resolution demo_options" by (simp add: demo_basics)
  from demo demo_startup demo_basics(1) pos
  have "\<exists>svg. body sample_env demo_options =
      Some (output_dir_events sample_env demo_options
            @ [WriteFile (create_filespec sample_env (s_directory_out demo_options) ''test.svg'')
                 (SvgDoc pano_width pano_height svg)], EXIT_SUCCESS)"
    by simp
  then obtain svg where d: "body sample_env demo_options =
      Some ([WriteFile ''out/test.svg'' (SvgDoc pano_width pano_height svg)], EXIT_SUCCESS)"
    by (auto simp: demo_basics sample_basics)
  from demo d demo_basics(1)
  have d_none: "\<not> list_ex conversion_event (trace_of (body sample_env demo_options))"
    by (simp add: trace_of_def)
  from conv sample_startup sample_not_demo
  have c: "body sample_env sample_options =
      Some (convert_images sample_env sample_options [''pano.jpg'', ''broken.jpg'']
            @ [focal_file sample_env sample_options], EXIT_SUCCESS)"
    by (simp add: sample_basics output_dir_events_def)
  from conv c sample_not_demo
  have c_none: "\<not> list_ex diagnostic_event (trace_of (body sample_env sample_options))"
    by (simp add: trace_of_def)
  have c_some: "list_ex conversion_event (trace_of (body sample_env sample_options))"
    by (simp add: c trace_of_def focal_file_def)
  show ?thesis
    using d d_none c c_none c_some demo_startup sample_startup sample_not_demo
    by (simp add: trace_of_def exit_code_def demo_basics sample_basics)
qed

subsection \<open>The field of view\<close>

lemma camera_rotations_fov [simp]: "camera_rotations (opts\<lparr>fov := f\<rparr>) = camera_rotations opts"
  by (simp add: camera_rotations_def alpha_def)

lemma pinhole_camera_fov [simp]: "pinhole_camera E (opts\<lparr>fov := f\<rparr>) = pinhole_camera E opts"
  by (simp add: pinhole_camera_def)

lemma convert_image_fov [simp]: "convert_image E (opts\<lparr>fov := f\<rparr>) x = convert_image E opts x"
  by (simp add: convert_image_def save_images_eq output_name_def sampled_images_def
      split: option.split)

lemma convert_images_fov [simp]: "convert_images E (opts\<lparr>fov := f\<rparr>) fs = convert_images E opts fs"
  by (induction fs) simp_all

lemma demo_mode_fov [simp]: "demo_mode E (opts\<lparr>fov := f\<rparr>) = demo_mode E opts"
  by (simp add: demo_mode_def split: option.split)

lemma output_dir_events_fov [simp]:
  "output_dir_events E (opts\<lparr>fov := f\<rparr>) = output_dir_events E opts"
  by (simp add: output_dir_events_def)

lemma filter_output_dir_events [simp]:
  "filter (\<lambda>e. \<not> focal_text_event e) (output_dir_events E opts) = output_dir_events E opts"
  by (simp add: output_dir_events_def)

lemma no_focal_text_in_save:
  "filter (\<lambda>e. \<not> focal_text_event e) (concat (map (\<lambda>k. [Cout (c k), WriteImage (p k) (im k)]) ks))
     = concat (map (\<lambda>k. [Cout (c k), WriteImage (p k) (im k)]) ks)"
  by (induction ks) simp_all

lemma no_focal_text_in_convert_image:
  "filter (\<lambda>e. \<not> focal_text_event e) (convert_image E opts f) = convert_image E opts f"
  by (simp add: convert_image_def save_images_eq no_focal_text_in_save split: option.split)

lemma no_focal_text_in_convert_images:
  "filter (\<lambda>e. \<not> focal_text_event e) (convert_images E opts fs) = convert_images E opts fs"
  by (induction fs) (simp_all add: no_focal_text_in_convert_image)

lemma without_focal_text_demo:
  "without_focal_text (after evs (demo_mode E opts)) = after (filter (\<lambda>e. \<not> focal_text_event e) evs) (demo_mode E opts)"
  by (simp add: without_focal_text_def after_def demo_mode_def split: option.split)

lemma without_focal_text_body:
  "without_focal_text (body E (opts\<lparr>fov := f\<rparr>)) = without_focal_text (body E (opts\<lparr>fov := 0\<rparr>))"
  by (simp add: body_def without_focal_text_def conversion_mode_def
      no_focal_text_in_convert_images focal_file_def without_focal_text_demo [unfolded without_focal_text_def])

text \<open>
  Claim C8. Two runs whose options differ only in the field of view have the same
  effects and the same exit code, apart from the value streamed to \<open>focal.txt\<close>; in
  particular they write the same images under the same names.
\<close>
theorem fov_reaches_only_focal_file:
  "without_focal_text (body E (opts\<lparr>fov := f1\<rparr>)) = without_focal_text (body E (opts\<lparr>fov := f2\<rparr>))
   \<and> written_images (trace_of (body E (opts\<lparr>fov := f1\<rparr>)))
       = written_images (trace_of (body E (opts\<lparr>fov := f2\<rparr>)))
   \<and> exit_code (body E (opts\<lparr>fov := f1\<rparr>)) = exit_code (body E (opts\<lparr>fov := f2\<rparr>))"
proof -
  have eq: "without_focal_text (body E (opts\<lparr>fov := f1\<rparr>)) = without_focal_text (body E (opts\<lparr>fov := f2\<rparr>))"
    by (simp only: without_focal_text_body [where f = f1] without_focal_text_body [where f = f2])
  have imgs: "written_images (trace_of r) = written_images (trace_of (without_focal_text r))" for r
  proof (cases r)
    case None
    then show ?thesis by (simp add: without_focal_text_def trace_of_def)
  next
    case (Some p)
    obtain tr code where p: "p = (tr, code)" by (cases p)
    have "written_images tr = written_images (filter (\<lambda>e. \<not> focal_text_event e) tr)"
    proof (induction tr)
      case Nil
      show ?case by simp
    next
      case (Cons e tr)
      then show ?case by (cases e rule: focal_text_event.cases) simp_all
    qed
    then show ?thesis by (simp add: Some p without_focal_text_def trace_of_def)
  qed
  have code: "exit_code r = exit_code (without_focal_text r)" for r
    by (cases r) (auto simp: exit_code_def without_focal_text_def)
  show ?thesis
    using eq imgs [of "body E (opts\<lparr>fov := f1\<rparr>)"] imgs [of "body E (opts\<lparr>fov := f2\<rparr>)"]
      code [of "body E (opts\<lparr>fov := f1\<rparr>)"] code [of "body E (opts\<lparr>fov := f2\<rparr>)"]
    by simp
qed

end
